theory Spec2Isabelle
  imports Main
begin

section \<open>Weather fetcher and saver: a model of \<open>WeatherApp/weather_fetcher.py\<close>\<close>

text \<open>
  Python strings are modelled as \<open>string\<close>; a \<open>char\<close> stands for one code point
  below 256. Python integers are unbounded and modelled as \<open>int\<close>.
\<close>

subsection \<open>Exceptions\<close>

text \<open>
  The exception classes the program can meet. \<open>HTTPError\<close>, \<open>ConnectionError\<close>, \<open>Timeout\<close>
  and \<open>JSONDecodeError\<close> are the classes of the \<open>requests\<close> library, all subclasses of
  \<open>requests.RequestException\<close>; the others are built-in subclasses of \<open>Exception\<close>.
\<close>

datatype exception =
    HTTPError | ConnectionError | Timeout | JSONDecodeError
  | KeyError | AttributeError | ValueError | OSError | EOFError

definition isinstance_HTTPError :: "exception \<Rightarrow> bool" where
  "isinstance_HTTPError e = (e = HTTPError)"

definition isinstance_RequestException :: "exception \<Rightarrow> bool" where
  "isinstance_RequestException e =
     (e \<in> set [HTTPError, ConnectionError, Timeout, JSONDecodeError])"

subsection \<open>Python's \<open>str\<close> of an integer\<close>

text \<open>The digit of a number below ten.\<close>

definition digit_char :: "nat \<Rightarrow> char" where
  "digit_char d = ''0123456789'' ! d"

function str_nat :: "nat \<Rightarrow> string" where
  "str_nat n = (if n < 10 then [digit_char n] else str_nat (n div 10) @ [digit_char (n mod 10)])"
  by pat_completeness auto
termination
  by (relation "measure (\<lambda>n. n)") auto

declare str_nat.simps [simp del]

text \<open>The decimal numeral of an integer, with a leading minus sign for a negative one.\<close>

definition decimal_int :: "int \<Rightarrow> string" where
  "decimal_int i = (if i < 0 then CHR ''-'' # str_nat (nat (- i)) else str_nat (nat i))"

text \<open>
  \<open>str(i)\<close>, which is also what an f-string prints for \<open>{i}\<close>. The interpreter refuses a
  conversion between \<open>int\<close> and \<open>str\<close> of more than \<open>sys.get_int_max_str_digits()\<close> digits,
  4300 unless configured otherwise, with a \<open>ValueError\<close>; the sign is not counted.
\<close>

definition int_max_str_digits :: nat where
  "int_max_str_digits = 4300"

definition str_int :: "int \<Rightarrow> exception + string" where
  "str_int i =
     (if int_max_str_digits < length (str_nat (nat \<bar>i\<bar>)) then Inl ValueError
      else Inr (decimal_int i))"

text \<open>The number a string of decimal digits denotes, to check \<open>str_nat\<close> against.\<close>

definition decimal_value :: "string \<Rightarrow> nat" where
  "decimal_value ds = foldl (\<lambda>a c. 10 * a + (of_char c - 48)) 0 ds"

subsection \<open>Condition decoder\<close>

text \<open>The dictionary literal of \<open>decode_weather_code\<close>, in source order.\<close>

definition mapping_table :: "(int \<times> string) list" where
  "mapping_table =
    [(0, ''Clear sky''),
     (1, ''Mainly clear''),
     (2, ''Partly cloudy''),
     (3, ''Overcast''),
     (45, ''Fog''),
     (48, ''Depositing rime fog''),
     (51, ''Light drizzle''),
     (53, ''Moderate drizzle''),
     (55, ''Dense drizzle''),
     (61, ''Slight rain''),
     (63, ''Moderate rain''),
     (65, ''Heavy rain''),
     (71, ''Slight snow''),
     (73, ''Moderate snow''),
     (75, ''Heavy snow''),
     (80, ''Rain showers (slight)''),
     (81, ''Rain showers (moderate)''),
     (82, ''Rain showers (violent)''),
     (95, ''Thunderstorm''),
     (96, ''Thunderstorm with slight hail''),
     (99, ''Thunderstorm with heavy hail'')]"

text \<open>
  \<open>mapping.get(int(code), f"Unknown ({code})")\<close> for an integer \<open>code\<close>: \<open>int(code)\<close> is
  \<open>code\<close> itself. The default is an argument of the call, so the f-string is built on
  every call, before the lookup, and the call raises what the f-string raises.
\<close>

definition decode_weather_code :: "int \<Rightarrow> exception + string" where
  "decode_weather_code code =
     (case str_int code of
        Inl e \<Rightarrow> Inl e
      | Inr digits \<Rightarrow>
          Inr (case map_of mapping_table code of
                 Some phrase \<Rightarrow> phrase
               | None \<Rightarrow> ''Unknown ('' @ digits @ '')''))"

subsection \<open>Floats and the format \<open>.4f\<close>\<close>

text \<open>
  A Python float is a finite binary number, an infinity or a NaN. \<open>Finite s m e\<close> is
  the number \<open>(-1)\<^sup>s * m * 2\<^sup>e\<close> (\<open>s\<close> the sign bit, so that \<open>-0.0\<close> has its sign);
  the model does not bound the mantissa.
\<close>

datatype pyfloat = Finite bool nat int | Inf bool | NaN

definition is_finite :: "pyfloat \<Rightarrow> bool" where
  "is_finite x = (case x of Finite s m e \<Rightarrow> True | Inf s \<Rightarrow> False | NaN \<Rightarrow> False)"

text \<open>The quotient \<open>p / q\<close> rounded to the nearest integer, a tie to the even one.\<close>

definition round_half_even :: "nat \<Rightarrow> nat \<Rightarrow> nat" where
  "round_half_even p q =
     (let d = p div q; r = p mod q
      in if q < 2 * r \<or> (2 * r = q \<and> odd d) then d + 1 else d)"

text \<open>\<open>m * 2\<^sup>e * 10\<^sup>4\<close> rounded to an integer: the digits that \<open>.4f\<close> prints.\<close>

definition scaled4 :: "nat \<Rightarrow> int \<Rightarrow> nat" where
  "scaled4 m e =
     (if 0 \<le> e then m * 2 ^ nat e * 10000
      else round_half_even (m * 10000) (2 ^ nat (- e)))"

definition pad4 :: "string \<Rightarrow> string" where
  "pad4 ds = replicate (4 - length ds) (CHR ''0'') @ ds"

text \<open>\<open>f"{x:.4f}"\<close>.\<close>

definition fmt_4f :: "pyfloat \<Rightarrow> string" where
  "fmt_4f x =
     (case x of
        Finite s m e \<Rightarrow>
          (let n = scaled4 m e
           in (if s then ''-'' else []) @ str_nat (n div 10000) @ ''.'' @
              pad4 (str_nat (n mod 10000)))
      | Inf s \<Rightarrow> (if s then ''-inf'' else ''inf'')
      | NaN \<Rightarrow> ''nan'')"

text \<open>
  What follows the first decimal point of a string, and the property of the claim
  about coordinates: a decimal point followed by exactly four digits.
\<close>

definition after_point :: "string \<Rightarrow> string" where
  "after_point t = drop 1 (dropWhile (\<lambda>c. c \<noteq> CHR ''.'') t)"

definition is_digit :: "char \<Rightarrow> bool" where
  "is_digit c = (c \<in> set ''0123456789'')"

definition four_decimals :: "string \<Rightarrow> bool" where
  "four_decimals t =
     (CHR ''.'' \<in> set t \<and> length (after_point t) = 4 \<and> list_all is_digit (after_point t))"

subsection \<open>The remote services and the rest of the environment\<close>

text \<open>
  What comes of \<open>requests.get\<close>, \<open>raise_for_status\<close> and \<open>json\<close> (lines 29 to 31 and 50 to
  52): no connection (a name that does not resolve, a refused connection), a timeout, a
  status for which \<open>raise_for_status\<close> raises, a body that is not JSON, or the decoded
  payload. \<open>get_json\<close> gives the exception the library raises in each case.
\<close>

datatype 'a reply = No_connection | Timed_out | Bad_status | Not_json | Payload 'a

definition get_json :: "'a reply \<Rightarrow> exception + 'a" where
  "get_json r =
     (case r of
        No_connection \<Rightarrow> Inl ConnectionError
      | Timed_out \<Rightarrow> Inl Timeout
      | Bad_status \<Rightarrow> Inl HTTPError
      | Not_json \<Rightarrow> Inl JSONDecodeError
      | Payload p \<Rightarrow> Inr p)"

text \<open>
  An integer of a decoded payload: the JSON parser converts its digits with \<open>int\<close>, under
  the same limit as \<open>str_int\<close>, so that it has at most 4300 digits.
\<close>

typedef json_int = "{i :: int. \<bar>i\<bar> < 10 ^ 4300}"
  morphisms int_of_json json_int_of
proof
  show "0 \<in> {i :: int. \<bar>i\<bar> < 10 ^ 4300}"
    by (simp only: mem_Collect_eq abs_zero zero_less_power zero_less_numeral)
qed

text \<open>
  A field of a JSON object is absent, \<open>null\<close>, or has a value. The payloads are typed as
  the services document them. In a result object, \<open>name\<close> and \<open>country\<close> are \<open>None\<close> when
  the key is absent and otherwise hold the text the f-string prints for the value;
  \<open>latitude\<close> and \<open>longitude\<close> are \<open>None\<close> when the key is absent and otherwise hold
  \<open>float(...)\<close> of the number.
\<close>

datatype 'a jfield = Absent | Null | Value 'a

record geo_result =
  name :: "string option"
  country :: "string option"
  latitude :: "pyfloat option"
  longitude :: "pyfloat option"

record geo_response =
  results :: "geo_result list jfield"

text \<open>
  The \<open>current\<close> object of the weather payload. The three measurements are \<open>None\<close> when
  absent or \<open>null\<close>, and otherwise hold \<open>str\<close> of the number (all the program does with
  them is print them); \<open>weather_code\<close> is an integer of the payload, as
  \<open>decode_weather_code\<close> declares, or \<open>None\<close> when absent or \<open>null\<close>.
\<close>

record current_weather =
  temperature_2m :: "string option"
  relative_humidity_2m :: "string option"
  wind_speed_10m :: "string option"
  weather_code :: "json_int option"

record weather_response =
  current :: "current_weather jfield"

text \<open>
  The environment of one run. \<open>geo_api city\<close> is the reply of the geocoding service to the
  request of \<open>geocode_city\<close>, \<open>weather_api lat lon\<close> that of the weather service to the
  request of \<open>fetch_weather\<close>. \<open>argv\<close> is \<open>sys.argv\<close>, the script's name first; \<open>stdin_line\<close> is
  the line \<open>input\<close> reads, \<open>None\<close> at the end of the input, where \<open>input\<close> raises \<open>EOFError\<close>;
  \<open>now_local\<close> is the formatted clock; \<open>str_exc\<close> is \<open>str(e)\<close> of an exception;
  \<open>csv_path_resolved\<close> is \<open>CSV_PATH.resolve()\<close>.
\<close>

record world =
  argv :: "string list"
  stdin_line :: "string option"
  geo_api :: "string \<Rightarrow> geo_response reply"
  weather_api :: "pyfloat \<Rightarrow> pyfloat \<Rightarrow> weather_response reply"
  now_local :: string
  str_exc :: "exception \<Rightarrow> string"
  csv_path_resolved :: string

text \<open>The log file: its content if it exists, and whether opening it for append succeeds.\<close>

record filesys =
  log_content :: "string option"
  log_openable :: bool

datatype request = GeoRequest string | WeatherRequest pyfloat pyfloat

text \<open>What a run has done so far: the requests sent, the lines printed, the log file.\<close>

record state =
  net_calls :: "request list"
  console :: "string list"
  fs :: filesys

definition print_line :: "string \<Rightarrow> state \<Rightarrow> state" where
  "print_line t st = st\<lparr>console := console st @ [t]\<rparr>"

definition send :: "request \<Rightarrow> state \<Rightarrow> state" where
  "send r st = st\<lparr>net_calls := net_calls st @ [r]\<rparr>"

subsection \<open>Strings\<close>

text \<open>\<open>sep.join(xs)\<close>.\<close>

fun join :: "string \<Rightarrow> string list \<Rightarrow> string" where
  "join sep [] = []"
| "join sep [x] = x"
| "join sep (x # y # ys) = x @ sep @ join sep (y # ys)"

text \<open>\<open>str.isspace\<close> for a code point below 256, and \<open>str.strip()\<close>.\<close>

definition py_isspace :: "char \<Rightarrow> bool" where
  "py_isspace c =
     (of_char c \<in> set [9, 10, 11, 12, 13, 28, 29, 30, 31, 32, 133, 160 :: nat])"

definition strip :: "string \<Rightarrow> string" where
  "strip t = rev (dropWhile py_isspace (rev (dropWhile py_isspace t)))"

text \<open>\<open>f"{v}"\<close> for an optional value: \<open>None\<close> prints as \<open>None\<close>.\<close>

definition str_opt :: "string option \<Rightarrow> string" where
  "str_opt v = (case v of None \<Rightarrow> ''None'' | Some t \<Rightarrow> t)"

definition apostrophe :: string where
  "apostrophe = [CHR 0x27]"

subsection \<open>Geocoder\<close>

text \<open>Lines 32 to 37 of \<open>geocode_city\<close>, on the decoded payload.\<close>

definition geocode_parse ::
  "geo_response \<Rightarrow> exception + (pyfloat \<times> pyfloat \<times> string) option" where
  "geocode_parse data =
     (let results_list = (case results data of Absent \<Rightarrow> [] | Null \<Rightarrow> [] | Value rs \<Rightarrow> rs)
      in case results_list of
           [] \<Rightarrow> Inr None
         | r # rest \<Rightarrow>
            (let resolved =
                   (case name r of None \<Rightarrow> ''?'' | Some n \<Rightarrow> n) @ '', '' @
                   (case country r of None \<Rightarrow> ''?'' | Some c \<Rightarrow> c)
             in case latitude r of
                  None \<Rightarrow> Inl KeyError
                | Some lat \<Rightarrow>
                   (case longitude r of
                      None \<Rightarrow> Inl KeyError
                    | Some lon \<Rightarrow> Inr (Some (lat, lon, resolved)))))"

text \<open>What \<open>geocode_city\<close> returns or raises, and the call with its request recorded.\<close>

definition geocode_result ::
  "world \<Rightarrow> string \<Rightarrow> exception + (pyfloat \<times> pyfloat \<times> string) option" where
  "geocode_result w city =
     (case get_json (geo_api w city) of Inl e \<Rightarrow> Inl e | Inr data \<Rightarrow> geocode_parse data)"

definition geocode_city ::
  "world \<Rightarrow> string \<Rightarrow> state \<Rightarrow>
   (exception + (pyfloat \<times> pyfloat \<times> string) option) \<times> state" where
  "geocode_city w city st = (geocode_result w city, send (GeoRequest city) st)"

subsection \<open>Weather client\<close>

definition fetch_weather ::
  "world \<Rightarrow> pyfloat \<Rightarrow> pyfloat \<Rightarrow> state \<Rightarrow> (exception + weather_response) \<times> state" where
  "fetch_weather w lat lon st =
     (get_json (weather_api w lat lon), send (WeatherRequest lat lon) st)"

subsection \<open>Log writer\<close>

text \<open>
  The \<open>csv\<close> module with its default dialect: delimiter \<open>,\<close>, quote character \<open>"\<close> doubled
  inside a quoted field, minimal quoting (a field is quoted when it holds the delimiter,
  the quote character, a carriage return or a line feed), line terminator CR LF. The
  file is opened with \<open>newline=""\<close>, so what the writer emits is what the file receives.
\<close>

definition fieldnames :: "string list" where
  "fieldnames =
     [''timestamp_local'', ''city'', ''lat'', ''lon'',
      ''temperature_c'', ''humidity_pct'', ''wind_kmh'', ''condition'']"

definition csv_special :: "char \<Rightarrow> bool" where
  "csv_special c = (c \<in> set [CHR '','', CHR 0x22, CHR 0x0D, CHR 0x0A])"

definition csv_field :: "string \<Rightarrow> string" where
  "csv_field t =
     (if list_ex csv_special t
      then [CHR 0x22] @ concat (map (\<lambda>c. if c = CHR 0x22 then [c, c] else [c]) t) @ [CHR 0x22]
      else t)"

text \<open>One record as the writer emits it; a record of one empty field is written quoted.\<close>

definition csv_line :: "string list \<Rightarrow> string" where
  "csv_line cells =
     (if cells = [[]] then [CHR 0x22, CHR 0x22] else join '','' (map csv_field cells))
     @ [CHR 0x0D, CHR 0x0A]"

text \<open>
  A row is a dictionary from column names to values, a value being \<open>None\<close> or a string.
  \<open>DictWriter.writerow\<close> refuses a key that is no column, and writes the empty string
  for a missing column and for \<open>None\<close>.
\<close>

type_synonym row = "(string \<times> string option) list"

definition cell_text :: "string option \<Rightarrow> string" where
  "cell_text v = (case v of None \<Rightarrow> [] | Some t \<Rightarrow> t)"

definition dict_to_list :: "row \<Rightarrow> exception + string list" where
  "dict_to_list rowdict =
     (if list_ex (\<lambda>k. k \<notin> set fieldnames) (map fst rowdict) then Inl ValueError
      else Inr (map (\<lambda>k. case map_of rowdict k of
                            None \<Rightarrow> []
                          | Some v \<Rightarrow> cell_text v) fieldnames))"

text \<open>
  \<open>save_to_csv\<close> returns the exception it raised, if any, and the file system it leaves.
  A header written before \<open>writerow\<close> raises stays in the file, which the \<open>with\<close> block
  closes.
\<close>

definition save_to_csv :: "row \<Rightarrow> filesys \<Rightarrow> exception option \<times> filesys" where
  "save_to_csv rowdict fsys =
     (let new_file = (log_content fsys = None)
      in if \<not> log_openable fsys then (Some OSError, fsys)
         else
           (let opened = (case log_content fsys of None \<Rightarrow> [] | Some old \<Rightarrow> old);
                with_header = (if new_file then opened @ csv_line fieldnames else opened)
            in case dict_to_list rowdict of
                 Inl e \<Rightarrow> (Some e, fsys\<lparr>log_content := Some with_header\<rparr>)
               | Inr cells \<Rightarrow>
                   (None, fsys\<lparr>log_content := Some (with_header @ csv_line cells)\<rparr>)))"

subsection \<open>Orchestrator\<close>

text \<open>Lines 112 to 115: the city text, or the exception of \<open>input\<close>.\<close>

definition read_city :: "world \<Rightarrow> exception + string" where
  "read_city w =
     (if 1 < length (argv w) then Inr (join '' '' (drop 1 (argv w)))
      else case stdin_line w of None \<Rightarrow> Inl EOFError | Some t \<Rightarrow> Inr (strip t))"

text \<open>Line 134: the decoder is called only when a code is present.\<close>

definition condition_of :: "json_int option \<Rightarrow> exception + string" where
  "condition_of code =
     (case code of
        None \<Rightarrow> Inr ''Unknown''
      | Some c \<Rightarrow> decode_weather_code (int_of_json c))"

text \<open>The dictionary of lines 147 to 156.\<close>

definition log_row ::
  "string \<Rightarrow> string \<Rightarrow> pyfloat \<Rightarrow> pyfloat \<Rightarrow> string option \<Rightarrow> string option \<Rightarrow>
   string option \<Rightarrow> string \<Rightarrow> row" where
  "log_row now resolved_name lat lon temp hum wind condition =
     [(''timestamp_local'', Some now),
      (''city'', Some resolved_name),
      (''lat'', Some (fmt_4f lat)),
      (''lon'', Some (fmt_4f lon)),
      (''temperature_c'', temp),
      (''humidity_pct'', hum),
      (''wind_kmh'', wind),
      (''condition'', Some condition)]"

text \<open>Lines 137 to 141.\<close>

definition print_summary ::
  "string \<Rightarrow> string option \<Rightarrow> string option \<Rightarrow> string option \<Rightarrow> string \<Rightarrow> state \<Rightarrow> state" where
  "print_summary resolved_name temp hum wind condition st =
     print_line (''  Condition:   '' @ condition)
       (print_line (''  Wind:        '' @ str_opt wind @ '' km/h'')
         (print_line (''  Humidity:    '' @ str_opt hum @ '' %'')
           (print_line (''  Temperature: '' @ str_opt temp @ [CHR 0x20, CHR 0xB0] @ ''C'')
             (print_line ([CHR 0x0A] @ ''Weather in '' @ resolved_name @ '':'') st))))"

text \<open>
  \<open>w.get("current", {})\<close>: the empty dictionary when the key is absent, Python's \<open>None\<close>
  (here \<open>None\<close>) when the payload holds \<open>null\<close>.
\<close>

definition get_current :: "weather_response \<Rightarrow> current_weather option" where
  "get_current wr =
     (case current wr of
        Absent \<Rightarrow> Some \<lparr>temperature_2m = None, relative_humidity_2m = None,
                        wind_speed_10m = None, weather_code = None\<rparr>
      | Null \<Rightarrow> None
      | Value c \<Rightarrow> Some c)"

text \<open>
  Lines 129 to 159, from the weather payload to \<open>return 0\<close>. On \<open>None\<close> the first
  \<open>cur.get\<close> raises \<open>AttributeError\<close>; an exception of the decoder leaves the \<open>try\<close> body
  before anything is printed.
\<close>

definition report_and_save ::
  "world \<Rightarrow> pyfloat \<Rightarrow> pyfloat \<Rightarrow> string \<Rightarrow> weather_response \<Rightarrow> state \<Rightarrow>
   (exception + int) \<times> state" where
  "report_and_save w lat lon resolved_name wr st =
     (case get_current wr of
        None \<Rightarrow> (Inl AttributeError, st)
      | Some cur \<Rightarrow>
          (let temp = temperature_2m cur;
               hum = relative_humidity_2m cur;
               wind = wind_speed_10m cur;
               code = weather_code cur
           in case condition_of code of
                Inl e \<Rightarrow> (Inl e, st)
              | Inr condition \<Rightarrow>
                  (let st1 = print_summary resolved_name temp hum wind condition st;
                       saved = save_to_csv
                                 (log_row (now_local w) resolved_name lat lon temp hum wind
                                    condition)
                                 (fs st1);
                       st2 = st1\<lparr>fs := snd saved\<rparr>
                   in case fst saved of
                        Some e \<Rightarrow> (Inl e, st2)
                      | None \<Rightarrow>
                          (Inr 0,
                           print_line ([CHR 0x0A] @ ''Saved to '' @ csv_path_resolved w)
                             st2))))"

text \<open>
  The body of the \<open>try\<close> statement: the value returned or the exception raised, and the
  state at that point.
\<close>

definition try_body :: "world \<Rightarrow> string \<Rightarrow> state \<Rightarrow> (exception + int) \<times> state" where
  "try_body w city st0 =
     (case geocode_city w city st0 of
        (Inl e, st1) \<Rightarrow> (Inl e, st1)
      | (Inr None, st1) \<Rightarrow>
          (Inr 2,
           print_line (''Could not find location for '' @ apostrophe @ city @ apostrophe @
                       ''. Try a more specific name.'') st1)
      | (Inr (Some (lat, lon, resolved_name)), st1) \<Rightarrow>
          (case fetch_weather w lat lon st1 of
             (Inl e, st2) \<Rightarrow> (Inl e, st2)
           | (Inr wr, st2) \<Rightarrow> report_and_save w lat lon resolved_name wr st2))"

text \<open>The three \<open>except\<close> clauses, tried in the order of the source.\<close>

definition except_clauses :: "world \<Rightarrow> exception \<Rightarrow> state \<Rightarrow> int \<times> state" where
  "except_clauses w e st =
     (if isinstance_HTTPError e then
        (3, print_line (''HTTP error: '' @ str_exc w e @
                        '' (check your internet or try again later)'') st)
      else if isinstance_RequestException e then
        (4, print_line (''Network error: '' @ str_exc w e) st)
      else
        (5, print_line (''Unexpected error: '' @ str_exc w e) st))"

text \<open>
  \<open>main\<close>, from the environment and the log file: the exit code it returns, or the
  exception it lets through (that of \<open>input\<close>, raised outside the \<open>try\<close> statement), and the
  final state.
\<close>

definition main :: "world \<Rightarrow> filesys \<Rightarrow> (exception + int) \<times> state" where
  "main w fsys =
     (let st0 = print_line ''=== Weather Fetcher & Saver ===''
                  \<lparr>net_calls = [], console = [], fs = fsys\<rparr>
      in case read_city w of
           Inl e \<Rightarrow> (Inl e, st0)
         | Inr city \<Rightarrow>
             if city = [] then (Inr 1, print_line ''No city provided. Exiting.'' st0)
             else
               (case try_body w city st0 of
                  (Inr code, st) \<Rightarrow> (Inr code, st)
                | (Inl e, st) \<Rightarrow>
                    (Inr (fst (except_clauses w e st)), snd (except_clauses w e st))))"

text \<open>Appending records one after the other, each by a call of \<open>save_to_csv\<close>.\<close>

fun append_records :: "row list \<Rightarrow> filesys \<Rightarrow> filesys" where
  "append_records [] fsys = fsys"
| "append_records (r # rs) fsys = append_records rs (snd (save_to_csv r fsys))"

text \<open>
  The values \<open>main\<close> holds when it builds a row (lines 145 to 156), the row they give
  and the eight cells of its line in column order.
\<close>

record log_entry =
  e_now :: string
  e_city :: string
  e_lat :: pyfloat
  e_lon :: pyfloat
  e_temp :: "string option"
  e_hum :: "string option"
  e_wind :: "string option"
  e_condition :: string

definition entry_row :: "log_entry \<Rightarrow> row" where
  "entry_row e =
     log_row (e_now e) (e_city e) (e_lat e) (e_lon e) (e_temp e) (e_hum e) (e_wind e)
       (e_condition e)"

definition entry_cells :: "log_entry \<Rightarrow> string list" where
  "entry_cells e =
     [e_now e, e_city e, fmt_4f (e_lat e), fmt_4f (e_lon e),
      cell_text (e_temp e), cell_text (e_hum e), cell_text (e_wind e), e_condition e]"

subsection \<open>Concrete environments\<close>

text \<open>A run for Mumbai, used to instantiate the theorems below.\<close>

definition example_place :: geo_result where
  "example_place =
     \<lparr>name = Some ''Mumbai'', country = Some ''India'',
      latitude = Some (Finite False 39 (- 1)), longitude = Some (Finite False 291 (- 2))\<rparr>"

definition example_current :: current_weather where
  "example_current =
     \<lparr>temperature_2m = Some ''25.3'', relative_humidity_2m = Some ''60'',
      wind_speed_10m = Some ''12.1'', weather_code = Some (json_int_of 2)\<rparr>"

definition example_world :: world where
  "example_world =
     \<lparr>argv = [''weather_fetcher.py'', ''Mumbai''],
      stdin_line = Some [],
      geo_api = (\<lambda>city. Payload \<lparr>results = Value [example_place]\<rparr>),
      weather_api = (\<lambda>lat lon. Payload \<lparr>current = Value example_current\<rparr>),
      now_local = ''2024-01-01 10:00:00'',
      str_exc = (\<lambda>e. ''failure''),
      csv_path_resolved = ''/home/user/weather_log.csv''\<rparr>"

definition absent_log :: filesys where
  "absent_log = \<lparr>log_content = None, log_openable = True\<rparr>"

text \<open>A single blank as the only command-line argument.\<close>

definition blank_argument_world :: world where
  "blank_argument_world =
     example_world\<lparr>argv := [''weather_fetcher.py'', '' ''],
                   geo_api := (\<lambda>city. Payload \<lparr>results = Value []\<rparr>)\<rparr>"

text \<open>A geocoder whose best match has a latitude that is not a number.\<close>

definition nan_world :: world where
  "nan_world =
     example_world\<lparr>geo_api :=
       (\<lambda>city. Payload \<lparr>results = Value [example_place\<lparr>latitude := Some NaN\<rparr>]\<rparr>)\<rparr>"

definition example_entry :: log_entry where
  "example_entry =
     \<lparr>e_now = ''2024-01-01 10:00:00'', e_city = ''Mumbai, India'',
      e_lat = Finite False 39 (- 1), e_lon = Finite False 291 (- 2),
      e_temp = Some ''25.3'', e_hum = Some ''60'', e_wind = None,
      e_condition = ''Partly cloudy''\<rparr>"

section \<open>Properties\<close>

subsection \<open>Decimal numerals\<close>

lemma digit_char_is_digit: "k < 10 \<Longrightarrow> is_digit (digit_char k)"
proof -
  assume "k < 10"
  then have "k \<in> {0, 1, 2, 3, 4, 5, 6, 7, 8, 9}" by auto
  then show ?thesis by (auto simp: is_digit_def digit_char_def)
qed

lemma str_nat_digits: "list_all is_digit (str_nat n)"
proof (induction n rule: str_nat.induct)
  case (1 n)
  show ?case
  proof (cases "n < 10")
    case True
    then show ?thesis by (simp add: str_nat.simps [of n] digit_char_is_digit)
  next
    case False
    with 1 show ?thesis by (simp add: str_nat.simps [of n] digit_char_is_digit)
  qed
qed

lemma str_nat_no_point: "CHR ''.'' \<notin> set (str_nat n)"
proof
  assume "CHR ''.'' \<in> set (str_nat n)"
  with str_nat_digits [of n] have "is_digit (CHR ''.'')" by (auto simp: list_all_iff)
  then show False by (simp add: is_digit_def)
qed

lemma str_nat_length: "n < 10 ^ k \<Longrightarrow> 0 < k \<Longrightarrow> length (str_nat n) \<le> k"
proof (induction n arbitrary: k rule: str_nat.induct)
  case (1 n)
  show ?case
  proof (cases "n < 10")
    case True
    with 1(3) show ?thesis by (simp add: str_nat.simps [of n])
  next
    case False
    then obtain j where k: "k = Suc j" using 1(3) by (cases k) auto
    from False 1(2) k have "0 < j" by (cases j) auto
    moreover from 1(2) k have "n div 10 < 10 ^ j"
      by (simp add: less_mult_imp_div_less mult.commute)
    ultimately have "length (str_nat (n div 10)) \<le> j" using 1(1) [OF False] by blast
    with False k show ?thesis by (simp add: str_nat.simps [of n])
  qed
qed

lemma decimal_value_str_nat: "decimal_value (str_nat n) = n"
proof (induction n rule: str_nat.induct)
  case (1 n)
  have d: "of_char (digit_char k) - 48 = k" if "k < 10" for k
  proof -
    from that have "k \<in> {0, 1, 2, 3, 4, 5, 6, 7, 8, 9}" by auto
    then show ?thesis by (auto simp: digit_char_def)
  qed
  show ?case
  proof (cases "n < 10")
    case True
    then show ?thesis by (simp add: str_nat.simps [of n] decimal_value_def d)
  next
    case False
    with 1 have "decimal_value (str_nat (n div 10)) = n div 10" by simp
    with False show ?thesis
      by (simp add: str_nat.simps [of n] decimal_value_def d)
  qed
qed

lemma str_nat_long: "10 ^ k \<le> n \<Longrightarrow> k < length (str_nat n)"
proof (induction n arbitrary: k rule: str_nat.induct)
  case (1 n)
  show ?case
  proof (cases "n < 10")
    case True
    have "k = 0"
    proof (rule ccontr)
      assume "k \<noteq> 0"
      then have "(10 :: nat) ^ 1 \<le> 10 ^ k" by (intro power_increasing) simp_all
      with 1(2) True show False by simp
    qed
    then show ?thesis by (simp add: str_nat.simps [of n])
  next
    case False
    show ?thesis
    proof (cases k)
      case 0
      then show ?thesis by (simp add: str_nat.simps [of n])
    next
      case (Suc j)
      with 1(2) have "10 * 10 ^ j \<le> n" by simp
      then have "10 ^ j \<le> n div 10" by simp
      then have "j < length (str_nat (n div 10))" using 1(1) [OF False] by blast
      with False Suc show ?thesis by (simp add: str_nat.simps [of n])
    qed
  qed
qed

subsection \<open>The limit on the conversion of an integer\<close>

lemma nat_abs_bound: "\<bar>i\<bar> < 10 ^ k \<longleftrightarrow> nat \<bar>i\<bar> < 10 ^ k"
proof -
  have "int (nat \<bar>i\<bar>) = \<bar>i\<bar>" by simp
  moreover have "(int (nat \<bar>i\<bar>) < 10 ^ k) = (nat \<bar>i\<bar> < 10 ^ k)"
    by (metis of_nat_less_iff of_nat_numeral of_nat_power)
  ultimately show ?thesis by simp
qed

lemma str_int_within_limit: "\<bar>i\<bar> < 10 ^ 4300 \<Longrightarrow> str_int i = Inr (decimal_int i)"
proof -
  assume "\<bar>i\<bar> < 10 ^ 4300"
  then have "nat \<bar>i\<bar> < 10 ^ 4300" by (simp only: nat_abs_bound)
  then have "length (str_nat (nat \<bar>i\<bar>)) \<le> 4300" by (rule str_nat_length) simp
  then show ?thesis by (simp add: str_int_def int_max_str_digits_def)
qed

lemma str_int_beyond_limit: "10 ^ 4300 \<le> \<bar>i\<bar> \<Longrightarrow> str_int i = Inl ValueError"
proof -
  assume "10 ^ 4300 \<le> \<bar>i\<bar>"
  then have "\<not> nat \<bar>i\<bar> < 10 ^ 4300" by (simp only: nat_abs_bound [symmetric] not_less)
  then have "10 ^ 4300 \<le> nat \<bar>i\<bar>" by (simp only: not_less)
  then have "4300 < length (str_nat (nat \<bar>i\<bar>))" by (rule str_nat_long)
  then show ?thesis by (simp add: str_int_def int_max_str_digits_def)
qed

lemma small_within_limit: "\<bar>i\<bar> < 10 ^ 4 \<Longrightarrow> \<bar>i\<bar> < (10 :: int) ^ 4300"
proof -
  assume a: "\<bar>i\<bar> < 10 ^ 4"
  have "(10 :: int) ^ 4 \<le> 10 ^ 4300" by (rule power_increasing) simp_all
  with a show ?thesis by (rule less_le_trans)
qed

lemma decode_within_limit:
  "\<bar>code\<bar> < 10 ^ 4300 \<Longrightarrow>
   decode_weather_code code =
     Inr (case map_of mapping_table code of
            Some phrase \<Rightarrow> phrase
          | None \<Rightarrow> ''Unknown ('' @ decimal_int code @ '')'')"
proof -
  assume "\<bar>code\<bar> < 10 ^ 4300"
  then have "str_int code = Inr (decimal_int code)" by (rule str_int_within_limit)
  then show ?thesis by (simp add: decode_weather_code_def)
qed

lemma int_of_json_bound: "\<bar>int_of_json c\<bar> < 10 ^ 4300"
  using int_of_json [of c] by (simp only: mem_Collect_eq)

lemma json_int_of_small: "\<bar>i\<bar> < 10 ^ 4 \<Longrightarrow> int_of_json (json_int_of i) = i"
  by (rule json_int_of_inverse) (simp only: mem_Collect_eq small_within_limit)

lemma decode_json_int:
  "decode_weather_code (int_of_json c) =
     Inr (case map_of mapping_table (int_of_json c) of
            Some phrase \<Rightarrow> phrase
          | None \<Rightarrow> ''Unknown ('' @ decimal_int (int_of_json c) @ '')'')"
  by (rule decode_within_limit) (rule int_of_json_bound)

subsection \<open>Formatting, the log writer and the paths of the run\<close>

lemma pad4_ok:
  assumes "n < 10000"
  shows "length (pad4 (str_nat n)) = 4 \<and> list_all is_digit (pad4 (str_nat n))"
proof -
  from assms have "length (str_nat n) \<le> 4" using str_nat_length [of n 4] by simp
  moreover have "is_digit (CHR ''0'')" by (simp add: is_digit_def)
  ultimately show ?thesis
    using str_nat_digits [of n] by (auto simp: pad4_def list_all_iff)
qed

lemma fmt_4f_finite: "is_finite x \<Longrightarrow> four_decimals (fmt_4f x)"
proof (cases x)
  case (Finite s m e)
  define n where "n = scaled4 m e"
  define pre where "pre = (if s then ''-'' else []) @ str_nat (n div 10000)"
  have np: "\<And>c. c \<in> set pre \<Longrightarrow> c \<noteq> CHR ''.''"
    using str_nat_no_point [of "n div 10000"] by (auto simp: pre_def)
  have fx: "fmt_4f x = pre @ CHR ''.'' # pad4 (str_nat (n mod 10000))"
    using Finite by (simp add: fmt_4f_def n_def pre_def Let_def)
  have ap: "after_point (fmt_4f x) = pad4 (str_nat (n mod 10000))"
    unfolding fx after_point_def using np by simp
  have "n mod 10000 < 10000" by simp
  from pad4_ok [OF this] ap show ?thesis
    by (simp add: four_decimals_def fx)
next
  case (Inf s)
  assume "is_finite x"
  with Inf show ?thesis by (simp add: is_finite_def)
next
  case NaN
  assume "is_finite x"
  with NaN show ?thesis by (simp add: is_finite_def)
qed

lemma strip_all_space: "list_all py_isspace t \<Longrightarrow> strip t = []"
proof -
  assume "list_all py_isspace t"
  then have "dropWhile py_isspace t = []"
    unfolding dropWhile_eq_Nil_conv list_all_iff .
  then show ?thesis
    unfolding strip_def by (simp only: rev.simps dropWhile.simps)
qed

lemma dict_to_list_log_row:
  "dict_to_list (log_row now nm lat lon temp hum wind cond) =
     Inr [now, nm, fmt_4f lat, fmt_4f lon, cell_text temp, cell_text hum, cell_text wind, cond]"
  by (simp add: dict_to_list_def log_row_def fieldnames_def cell_text_def)

lemma save_to_csv_valid:
  assumes "log_openable fsys" and "dict_to_list r = Inr cells"
  shows "save_to_csv r fsys =
    (None, fsys\<lparr>log_content :=
       Some ((case log_content fsys of None \<Rightarrow> csv_line fieldnames | Some old \<Rightarrow> old) @ csv_line cells)\<rparr>)"
  using assms by (simp add: save_to_csv_def Let_def split: option.splits)



lemma main_empty_city:
  "read_city w = Inr [] \<Longrightarrow>
   fst (main w fsys) = Inr 1 \<and> net_calls (snd (main w fsys)) = [] \<and> fs (snd (main w fsys)) = fsys"
  by (simp add: main_def Let_def print_line_def)

lemma main_nonempty:
  "read_city w = Inr city \<Longrightarrow> city \<noteq> [] \<Longrightarrow> main w fsys =
    (case try_body w city
        (print_line ''=== Weather Fetcher & Saver ===''
                  \<lparr>net_calls = [], console = [], fs = fsys\<rparr>) of
       (Inr code, st) \<Rightarrow> (Inr code, st)
     | (Inl e, st) \<Rightarrow> (Inr (fst (except_clauses w e st)), snd (except_clauses w e st)))"
  by (simp add: main_def Let_def)

lemma try_body_geo_raises:
  "geocode_result w city = Inl e \<Longrightarrow> try_body w city st = (Inl e, send (GeoRequest city) st)"
  by (simp add: try_body_def geocode_city_def)

lemma try_body_not_found:
  "geocode_result w city = Inr None \<Longrightarrow> try_body w city st =
     (Inr 2, print_line (''Could not find location for '' @ apostrophe @ city @ apostrophe @
                       ''. Try a more specific name.'') (send (GeoRequest city) st))"
  by (simp add: try_body_def geocode_city_def)

lemma try_body_found:
  "geocode_result w city = Inr (Some (lat, lon, nm)) \<Longrightarrow> try_body w city st =
     (case get_json (weather_api w lat lon) of
        Inl e \<Rightarrow> (Inl e, send (WeatherRequest lat lon) (send (GeoRequest city) st))
      | Inr wr \<Rightarrow>
          report_and_save w lat lon nm wr
            (send (WeatherRequest lat lon) (send (GeoRequest city) st)))"
  by (simp add: try_body_def geocode_city_def fetch_weather_def split: sum.splits)

lemma except_clauses_code:
  "fst (except_clauses w e st) =
     (case e of HTTPError \<Rightarrow> 3 | ConnectionError \<Rightarrow> 4 | Timeout \<Rightarrow> 4
      | JSONDecodeError \<Rightarrow> 4 | _ \<Rightarrow> 5)"
  by (cases e)
    (simp_all add: except_clauses_def isinstance_HTTPError_def isinstance_RequestException_def)

lemma except_clauses_state:
  "fs (snd (except_clauses w e st)) = fs st \<and>
   net_calls (snd (except_clauses w e st)) = net_calls st"
  by (simp add: except_clauses_def print_line_def)

lemma main_not_found:
  assumes "read_city w = Inr city" and "city \<noteq> []" and "geocode_result w city = Inr None"
  shows "fst (main w fsys) = Inr 2" and "fs (snd (main w fsys)) = fsys"
    and "net_calls (snd (main w fsys)) = [GeoRequest city]"
  using assms by (simp_all add: main_nonempty try_body_not_found print_line_def send_def)

lemma main_geo_raises:
  assumes "read_city w = Inr city" and "city \<noteq> []" and "geocode_result w city = Inl e"
  shows "fst (main w fsys) =
           Inr (case e of HTTPError \<Rightarrow> 3 | ConnectionError \<Rightarrow> 4 | Timeout \<Rightarrow> 4
                | JSONDecodeError \<Rightarrow> 4 | _ \<Rightarrow> 5)"
    and "fs (snd (main w fsys)) = fsys"
  using assms
  by (simp_all add: main_nonempty try_body_geo_raises except_clauses_code except_clauses_state
      send_def print_line_def)


lemma get_json_payload: "r = Payload p \<Longrightarrow> get_json r = Inr p"
  by (simp add: get_json_def)


lemma geocode_result_payload:
  "geo_api w city = Payload data \<Longrightarrow> geocode_result w city = geocode_parse data"
  by (simp add: geocode_result_def get_json_def)

text \<open>The condition string of a payload: the decoder raises nothing on its integers.\<close>

lemma condition_of_json:
  "condition_of code =
     Inr (case code of
            None \<Rightarrow> ''Unknown''
          | Some c \<Rightarrow>
              (case map_of mapping_table (int_of_json c) of
                 Some phrase \<Rightarrow> phrase
               | None \<Rightarrow> ''Unknown ('' @ decimal_int (int_of_json c) @ '')''))"
  by (cases code) (simp_all add: condition_of_def decode_json_int)


lemma report_and_save_ok:
  assumes "get_current wr = Some cur" and "log_openable (fs st)"
    and "condition_of (weather_code cur) = Inr condition"
  shows "report_and_save w lat lon nm wr st =
     (Inr 0,
      print_line ([CHR 0x0A] @ ''Saved to '' @ csv_path_resolved w)
        ((print_summary nm (temperature_2m cur) (relative_humidity_2m cur) (wind_speed_10m cur)
            condition st)
         \<lparr>fs := (fs st)\<lparr>log_content := Some
             ((case log_content (fs st) of None \<Rightarrow> csv_line fieldnames | Some old \<Rightarrow> old) @
              csv_line [now_local w, nm, fmt_4f lat, fmt_4f lon,
                 cell_text (temperature_2m cur), cell_text (relative_humidity_2m cur),
                 cell_text (wind_speed_10m cur), condition])\<rparr>\<rparr>))"
proof -
  have pfs: "fs (print_summary a b c d e st) = fs st" for a b c d e
    by (simp add: print_summary_def print_line_def)
  show ?thesis
    using assms
    by (simp add: report_and_save_def Let_def pfs save_to_csv_valid [OF _ dict_to_list_log_row])
qed

lemma main_success:
  assumes "read_city w = Inr city" and "city \<noteq> []"
    and "geocode_result w city = Inr (Some (lat, lon, nm))"
    and "weather_api w lat lon = Payload wr" and "get_current wr = Some cur"
    and "log_openable fsys"
    and "condition_of (weather_code cur) = Inr condition"
  shows "fst (main w fsys) = Inr 0"
    and "log_content (fs (snd (main w fsys))) =
       Some ((case log_content fsys of None \<Rightarrow> csv_line fieldnames | Some old \<Rightarrow> old) @
              csv_line [now_local w, nm, fmt_4f lat, fmt_4f lon,
                 cell_text (temperature_2m cur), cell_text (relative_humidity_2m cur),
                 cell_text (wind_speed_10m cur), condition])"
    and "console (snd (main w fsys)) =
       [''=== Weather Fetcher & Saver ==='',
        [CHR 0x0A] @ ''Weather in '' @ nm @ '':'',
        ''  Temperature: '' @ str_opt (temperature_2m cur) @ [CHR 0x20, CHR 0xB0] @ ''C'',
        ''  Humidity:    '' @ str_opt (relative_humidity_2m cur) @ '' %'',
        ''  Wind:        '' @ str_opt (wind_speed_10m cur) @ '' km/h'',
        ''  Condition:   '' @ condition,
        [CHR 0x0A] @ ''Saved to '' @ csv_path_resolved w]"
  using assms
  by (simp_all add: main_nonempty try_body_found get_json_payload
      report_and_save_ok [where condition = condition] send_def print_line_def print_summary_def)






lemma example_code: "int_of_json (json_int_of 2) = 2" "int_of_json (json_int_of 100) = 100"
  by (simp_all add: json_int_of_small)

subsection \<open>The header line is the line of no other row\<close>

lemma header_line_text:
  "csv_line fieldnames =
     ''timestamp_local,city,lat,lon,temperature_c,humidity_pct,wind_kmh,condition'' @
     [CHR 0x0D, CHR 0x0A]"
  by (simp add: csv_line_def fieldnames_def csv_field_def csv_special_def)

lemma dict_to_list_length: "dict_to_list r = Inr cells \<Longrightarrow> length cells = 8"
  by (auto simp: dict_to_list_def fieldnames_def split: if_splits)

lemma split_at_comma:
  assumes "CHR '','' \<notin> set a" and "CHR '','' \<notin> set b"
    and "a @ CHR '','' # r = b @ CHR '','' # t"
  shows "a = b \<and> r = t"
proof -
  have "takeWhile (\<lambda>c. c \<noteq> CHR '','') (a @ CHR '','' # r) = a"
    using assms(1) by (auto simp: takeWhile_tail)
  moreover have "takeWhile (\<lambda>c. c \<noteq> CHR '','') (b @ CHR '','' # t) = b"
    using assms(2) by (auto simp: takeWhile_tail)
  ultimately have "a = b" using assms(3) by simp
  with assms(3) show ?thesis by simp
qed

lemma csv_field_plain: "\<not> list_ex csv_special t \<Longrightarrow> csv_field t = t \<and> CHR '','' \<notin> set t"
  by (auto simp: csv_field_def csv_special_def list_ex_iff)

lemma csv_field_quoted: "list_ex csv_special t \<Longrightarrow> CHR 0x22 \<in> set (csv_field t)"
  by (simp add: csv_field_def)

lemma set_join: "set (join sep xs) \<supseteq> \<Union> (set ` set xs)"
  by (induction sep xs rule: join.induct) auto

lemma quote_in_line:
  assumes "x \<in> set cells" and "list_ex csv_special x" and "cells \<noteq> [[]]"
  shows "CHR 0x22 \<in> set (csv_line cells)"
proof -
  have "CHR 0x22 \<in> set (csv_field x)" using assms(2) by (rule csv_field_quoted)
  moreover have "csv_field x \<in> set (map csv_field cells)" using assms(1) by simp
  ultimately have "CHR 0x22 \<in> set (join '','' (map csv_field cells))"
    using set_join [of "map csv_field cells" "'',''"] by blast
  with assms(3) show ?thesis by (simp add: csv_line_def)
qed

lemma line_is_header:
  assumes eq: "csv_line cells = csv_line fieldnames" and len: "length cells = 8"
  shows "cells = fieldnames"
proof -
  obtain a b c d e f g h where cells: "cells = [a, b, c, d, e, f, g, h]"
    using len by (auto simp: length_Suc_conv eval_nat_numeral)
  have noq: "CHR 0x22 \<notin> set (csv_line fieldnames)"
    by (simp add: header_line_text)
  have plain: "\<not> list_ex csv_special x" if "x \<in> set cells" for x
  proof
    assume "list_ex csv_special x"
    from quote_in_line [OF that this] cells have "CHR 0x22 \<in> set (csv_line cells)" by simp
    with eq noq show False by simp
  qed
  have p: "csv_field x = x \<and> CHR '','' \<notin> set x" if "x \<in> set cells" for x
    using csv_field_plain [OF plain [OF that]] .
  have pa: "csv_field a = a \<and> CHR '','' \<notin> set a" using p [of a] cells by simp
  have pb: "csv_field b = b \<and> CHR '','' \<notin> set b" using p [of b] cells by simp
  have pc: "csv_field c = c \<and> CHR '','' \<notin> set c" using p [of c] cells by simp
  have pd: "csv_field d = d \<and> CHR '','' \<notin> set d" using p [of d] cells by simp
  have pe: "csv_field e = e \<and> CHR '','' \<notin> set e" using p [of e] cells by simp
  have pf: "csv_field f = f \<and> CHR '','' \<notin> set f" using p [of f] cells by simp
  have pg: "csv_field g = g \<and> CHR '','' \<notin> set g" using p [of g] cells by simp
  have ph: "csv_field h = h \<and> CHR '','' \<notin> set h" using p [of h] cells by simp
  have line: "a @ CHR '','' # b @ CHR '','' # c @ CHR '','' # d @ CHR '','' # e @ CHR '','' #
        f @ CHR '','' # g @ CHR '','' # h =
      ''timestamp_local'' @ CHR '','' # ''city'' @ CHR '','' # ''lat'' @ CHR '','' # ''lon'' @
        CHR '','' # ''temperature_c'' @ CHR '','' # ''humidity_pct'' @ CHR '','' #
        ''wind_kmh'' @ CHR '','' # ''condition''"
    using eq pa pb pc pd pe pf pg ph unfolding header_line_text
    by (simp add: cells csv_line_def)
  from split_at_comma [OF _ _ line] pa have 1: "a = ''timestamp_local''" and
    r1: "b @ CHR '','' # c @ CHR '','' # d @ CHR '','' # e @ CHR '','' #
        f @ CHR '','' # g @ CHR '','' # h = ''city'' @ CHR '','' # ''lat'' @ CHR '','' # ''lon'' @
        CHR '','' # ''temperature_c'' @ CHR '','' # ''humidity_pct'' @ CHR '','' #
        ''wind_kmh'' @ CHR '','' # ''condition''" by simp_all
  from split_at_comma [OF _ _ r1] pb have 2: "b = ''city''" and
    r2: "c @ CHR '','' # d @ CHR '','' # e @ CHR '','' #
        f @ CHR '','' # g @ CHR '','' # h = ''lat'' @ CHR '','' # ''lon'' @
        CHR '','' # ''temperature_c'' @ CHR '','' # ''humidity_pct'' @ CHR '','' #
        ''wind_kmh'' @ CHR '','' # ''condition''" by simp_all
  from split_at_comma [OF _ _ r2] pc have 3: "c = ''lat''" and
    r3: "d @ CHR '','' # e @ CHR '','' #
        f @ CHR '','' # g @ CHR '','' # h = ''lon'' @
        CHR '','' # ''temperature_c'' @ CHR '','' # ''humidity_pct'' @ CHR '','' #
        ''wind_kmh'' @ CHR '','' # ''condition''" by simp_all
  from split_at_comma [OF _ _ r3] pd have 4: "d = ''lon''" and
    r4: "e @ CHR '','' # f @ CHR '','' # g @ CHR '','' # h =
        ''temperature_c'' @ CHR '','' # ''humidity_pct'' @ CHR '','' #
        ''wind_kmh'' @ CHR '','' # ''condition''" by simp_all
  from split_at_comma [OF _ _ r4] pe have 5: "e = ''temperature_c''" and
    r5: "f @ CHR '','' # g @ CHR '','' # h =
        ''humidity_pct'' @ CHR '','' # ''wind_kmh'' @ CHR '','' # ''condition''" by simp_all
  from split_at_comma [OF _ _ r5] pf have 6: "f = ''humidity_pct''" and
    r6: "g @ CHR '','' # h = ''wind_kmh'' @ CHR '','' # ''condition''" by simp_all
  from split_at_comma [OF _ _ r6] pg have 7: "g = ''wind_kmh''" and 8: "h = ''condition''"
    by simp_all
  from 1 2 3 4 5 6 7 8 show ?thesis by (simp add: cells fieldnames_def)
qed

lemma example_row_cells:
  "dict_to_list (entry_row example_entry) =
     Inr [''2024-01-01 10:00:00'', ''Mumbai, India'', ''19.5000'', ''72.7500'', ''25.3'', ''60'', [],
          ''Partly cloudy'']"
proof -
  have a: "scaled4 39 (- 1) = 195000" "scaled4 291 (- 2) = 727500"
    by (simp_all add: scaled4_def round_half_even_def Let_def)
  have b: "str_nat 19 = ''19''" "str_nat 72 = ''72''" "str_nat 5000 = ''5000''" "str_nat 7500 = ''7500''"
    by (simp_all add: str_nat.simps digit_char_def)
  have "fmt_4f (Finite False 39 (- 1)) = ''19.5000''" "fmt_4f (Finite False 291 (- 2)) = ''72.7500''"
    by (simp_all add: fmt_4f_def a b pad4_def)
  then show ?thesis
    by (simp add: entry_row_def example_entry_def dict_to_list_log_row cell_text_def)
qed

subsection \<open>Rows built by the orchestrator\<close>

lemma entry_row_cells: "dict_to_list (entry_row e) = Inr (entry_cells e)"
  by (simp add: entry_row_def entry_cells_def dict_to_list_log_row)

lemma append_records_existing:
  assumes "log_openable fsys" and "log_content fsys = Some old"
  shows "append_records (map entry_row es) fsys =
           fsys\<lparr>log_content := Some (old @ concat (map (\<lambda>e. csv_line (entry_cells e)) es))\<rparr>"
  using assms
proof (induction es arbitrary: fsys old)
  case Nil
  then show ?case by simp
next
  case (Cons e es)
  let ?next = "fsys\<lparr>log_content := Some (old @ csv_line (entry_cells e))\<rparr>"
  have step: "snd (save_to_csv (entry_row e) fsys) = ?next"
    using save_to_csv_valid [OF Cons.prems(1) entry_row_cells, of e] Cons.prems(2) by simp
  have "append_records (map entry_row es) ?next =
          ?next\<lparr>log_content :=
            Some ((old @ csv_line (entry_cells e)) @ concat (map (\<lambda>e. csv_line (entry_cells e)) es))\<rparr>"
    using Cons.prems(1) by (intro Cons.IH) simp_all
  with step show ?case by simp
qed

lemma fmt_4f_not_lat: "fmt_4f x \<noteq> ''lat''"
proof (cases x)
  case (Finite s m e)
  then have "CHR ''.'' \<in> set (fmt_4f x)" by (simp add: fmt_4f_def Let_def)
  then show ?thesis by auto
next
  case (Inf s)
  then show ?thesis by (simp add: fmt_4f_def)
next
  case NaN
  then show ?thesis by (simp add: fmt_4f_def)
qed

lemma entry_line_not_header: "csv_line (entry_cells e) \<noteq> csv_line fieldnames"
proof
  assume "csv_line (entry_cells e) = csv_line fieldnames"
  then have "entry_cells e = fieldnames"
    by (rule line_is_header) (simp add: entry_cells_def)
  then have "fmt_4f (e_lat e) = ''lat''" by (simp add: entry_cells_def fieldnames_def)
  with fmt_4f_not_lat show False by blast
qed

lemma example_fmt:
  "fmt_4f (Finite False 39 (- 1)) = ''19.5000''" "fmt_4f (Finite False 291 (- 2)) = ''72.7500''"
proof -
  have a: "scaled4 39 (- 1) = 195000" "scaled4 291 (- 2) = 727500"
    by (simp_all add: scaled4_def round_half_even_def Let_def)
  have b: "str_nat 19 = ''19''" "str_nat 72 = ''72''" "str_nat 5000 = ''5000''"
    "str_nat 7500 = ''7500''"
    by (simp_all add: str_nat.simps digit_char_def)
  show "fmt_4f (Finite False 39 (- 1)) = ''19.5000''"
    "fmt_4f (Finite False 291 (- 2)) = ''72.7500''"
    by (simp_all add: fmt_4f_def a b pad4_def)
qed

lemma example_cells:
  "entry_cells (example_entry\<lparr>e_now := t\<rparr>) =
     [t, ''Mumbai, India'', ''19.5000'', ''72.7500'', ''25.3'', ''60'', [], ''Partly cloudy'']"
  by (simp add: entry_cells_def example_entry_def example_fmt cell_text_def)

lemma example_line:
  "csv_line [t, ''Mumbai, India'', ''19.5000'', ''72.7500'', ''25.3'', ''60'', [], ''Partly cloudy''] =
     csv_field t @ '','' @ [CHR 0x22] @ ''Mumbai, India'' @ [CHR 0x22] @
     '',19.5000,72.7500,25.3,60,,Partly cloudy'' @ [CHR 0x0D, CHR 0x0A]"
  by (simp add: csv_line_def csv_field_def csv_special_def)

lemma four_decimals_examples: "four_decimals ''19.5000''" "four_decimals ''72.7500''"
  "\<not> four_decimals ''nan''"
  by (simp_all add: four_decimals_def after_point_def is_digit_def)

lemma nan_geocode:
  "geocode_result nan_world ''Mumbai'' =
     Inr (Some (NaN, Finite False 291 (- 2), ''Mumbai, India''))"
  by (simp add: geocode_result_def get_json_def geocode_parse_def nan_world_def
      example_world_def example_place_def)

lemma decode_never_plain_unknown: "decode_weather_code c \<noteq> Inr ''Unknown''"
  by (cases "str_int c") (simp_all add: decode_weather_code_def mapping_table_def)

lemma blank_prompt_exits_1:
  assumes "length (argv w) \<le> 1" and "stdin_line w = Some t" and "list_all py_isspace t"
  shows "fst (main w fsys) = Inr 1 \<and> net_calls (snd (main w fsys)) = []"
proof -
  from assms have "read_city w = Inr []" by (simp add: read_city_def strip_all_space)
  then show ?thesis by (simp add: main_empty_city)
qed

lemma empty_argument_exits_1:
  assumes "argv w = [prog, []]"
  shows "fst (main w fsys) = Inr 1 \<and> net_calls (snd (main w fsys)) = []"
proof -
  from assms have "read_city w = Inr []" by (simp add: read_city_def)
  then show ?thesis by (simp add: main_empty_city)
qed

lemma beyond_table:
  "100 \<le> x \<Longrightarrow>
   x \<notin> {0, 1, 2, 3, 45, 48, 51, 53, 55, 61, 63, 65, 71, 73, 75, 80, 81, 82, 95, 96, 99 :: int}"
  by auto

lemma limit_beyond_table: "100 \<le> (10 :: int) ^ 4300"
proof -
  have "(10 :: int) ^ 2 \<le> 10 ^ 4300" by (rule power_increasing) simp_all
  moreover have "(10 :: int) ^ 2 = 100" by simp
  ultimately show ?thesis by (simp only:)
qed

lemma decode_raises: "str_int code = Inl e \<Longrightarrow> decode_weather_code code = Inl e"
  by (simp add: decode_weather_code_def)

lemma decode_beyond_limit: "10 ^ 4300 \<le> \<bar>code\<bar> \<Longrightarrow> decode_weather_code code = Inl ValueError"
  by (rule decode_raises) (rule str_int_beyond_limit)

subsection \<open>Condition decoder\<close>

text \<open>
  Claim C1, as the code has it. The default of the lookup is an f-string built on every
  call, and the interpreter refuses to print an integer of more than 4300 digits. The
  code \<open>10 ^ 4300\<close>, of 4301 digits and outside the table, makes the decoder raise
  \<open>ValueError\<close>, and so does its negative: no string is returned.
\<close>

theorem unknown_code_fallback_counterexample:
  "(10 :: int) ^ 4300 \<notin>
     {0, 1, 2, 3, 45, 48, 51, 53, 55, 61, 63, 65, 71, 73, 75, 80, 81, 82, 95, 96, 99} \<and>
   decode_weather_code (10 ^ 4300) = Inl ValueError \<and>
   decode_weather_code (- (10 ^ 4300)) = Inl ValueError"
proof (intro conjI)
  show "(10 :: int) ^ 4300 \<notin>
     {0, 1, 2, 3, 45, 48, 51, 53, 55, 61, 63, 65, 71, 73, 75, 80, 81, 82, 95, 96, 99}"
    using limit_beyond_table by (rule beyond_table)
  show "decode_weather_code (10 ^ 4300) = Inl ValueError"
    by (rule decode_beyond_limit) (rule abs_ge_self)
  have "(10 :: int) ^ 4300 \<le> \<bar>- (10 ^ 4300)\<bar>"
    by (simp only: abs_minus_cancel abs_ge_self)
  then show "decode_weather_code (- (10 ^ 4300)) = Inl ValueError"
    by (rule decode_beyond_limit)
qed

text \<open>
  Claim C1, amended. For every integer code outside the table whose absolute value is
  below \<open>10 ^ 4300\<close>, that is, whose numeral has at most 4300 digits (the interpreter's
  default limit), the decoder raises nothing and returns \<open>Unknown (<code>)\<close> with the
  decimal numeral of the code in the parentheses, a negative code with its minus sign;
  for a code outside the table of larger absolute value it raises \<open>ValueError\<close>.
\<close>

theorem unknown_code_fallback:
  assumes "code \<notin> {0, 1, 2, 3, 45, 48, 51, 53, 55, 61, 63, 65, 71, 73, 75, 80, 81, 82, 95, 96, 99}"
  shows
    "(\<bar>code\<bar> < 10 ^ 4300 \<longrightarrow>
        decode_weather_code code = Inr (''Unknown ('' @ decimal_int code @ '')'')) \<and>
     (10 ^ 4300 \<le> \<bar>code\<bar> \<longrightarrow> decode_weather_code code = Inl ValueError)"
proof (intro conjI impI)
  have absent: "map_of mapping_table code = None"
    using assms by (simp add: mapping_table_def)
  assume "\<bar>code\<bar> < 10 ^ 4300"
  then have "decode_weather_code code =
     Inr (case map_of mapping_table code of
            Some phrase \<Rightarrow> phrase
          | None \<Rightarrow> ''Unknown ('' @ decimal_int code @ '')'')"
    by (rule decode_within_limit)
  then show "decode_weather_code code = Inr (''Unknown ('' @ decimal_int code @ '')'')"
    by (simp only: absent option.case)
next
  assume "10 ^ 4300 \<le> \<bar>code\<bar>"
  then show "decode_weather_code code = Inl ValueError" by (rule decode_beyond_limit)
qed

theorem unknown_code_fallback_witness:
  "decode_weather_code (- 1) = Inr ''Unknown (-1)'' \<and>
   decode_weather_code 100 = Inr ''Unknown (100)'' \<and>
   decode_weather_code 9999 = Inr ''Unknown (9999)''"
proof -
  have numerals: "decimal_int (- 1) = ''-1''" "decimal_int 100 = ''100''"
    "decimal_int 9999 = ''9999''"
    by (simp_all add: decimal_int_def str_nat.simps digit_char_def)
  have a: "\<bar>- 1\<bar> < (10 :: int) ^ 4300" by (rule small_within_limit) simp
  have b: "\<bar>100\<bar> < (10 :: int) ^ 4300" by (rule small_within_limit) simp
  have c: "\<bar>9999\<bar> < (10 :: int) ^ 4300" by (rule small_within_limit) simp
  have "decode_weather_code (- 1) = Inr (''Unknown ('' @ decimal_int (- 1) @ '')'')"
    by (rule unknown_code_fallback [of "- 1", THEN conjunct1, THEN mp, OF _ a]) simp
  moreover have "decode_weather_code 100 = Inr (''Unknown ('' @ decimal_int 100 @ '')'')"
    by (rule unknown_code_fallback [of 100, THEN conjunct1, THEN mp, OF _ b]) simp
  moreover have "decode_weather_code 9999 = Inr (''Unknown ('' @ decimal_int 9999 @ '')'')"
    by (rule unknown_code_fallback [of 9999, THEN conjunct1, THEN mp, OF _ c]) simp
  ultimately show ?thesis by (simp add: numerals)
qed

text \<open>
  Claim C2. Each of the 21 codes of the table is decoded, without an exception, to its
  phrase. The decoder is a function of its argument alone, so equal codes give equal
  phrases.
\<close>

theorem known_codes_phrases:
  "map decode_weather_code
     [0, 1, 2, 3, 45, 48, 51, 53, 55, 61, 63, 65, 71, 73, 75, 80, 81, 82, 95, 96, 99] =
   map Inr
     [''Clear sky'', ''Mainly clear'', ''Partly cloudy'', ''Overcast'', ''Fog'',
      ''Depositing rime fog'', ''Light drizzle'', ''Moderate drizzle'', ''Dense drizzle'',
      ''Slight rain'', ''Moderate rain'', ''Heavy rain'', ''Slight snow'', ''Moderate snow'',
      ''Heavy snow'', ''Rain showers (slight)'', ''Rain showers (moderate)'',
      ''Rain showers (violent)'', ''Thunderstorm'', ''Thunderstorm with slight hail'',
      ''Thunderstorm with heavy hail'']"
proof -
  have d: "decode_weather_code c =
     Inr (case map_of mapping_table c of
            Some phrase \<Rightarrow> phrase
          | None \<Rightarrow> ''Unknown ('' @ decimal_int c @ '')'')" if "\<bar>c\<bar> < 10 ^ 4" for c
    by (rule decode_within_limit) (rule small_within_limit [OF that])
  show ?thesis by (simp add: d mapping_table_def)
qed

subsection \<open>Orchestrator: exit codes\<close>

text \<open>
  Claim C4. When the geocoder finds nothing (\<open>geocode_city\<close> returns \<open>None\<close>), the run
  ends with exit code 2, the log file is as it was before the run, and the only request
  sent is the one to the geocoder.
\<close>

theorem not_found_exits_2:
  assumes "read_city w = Inr city" and "city \<noteq> []" and "geocode_result w city = Inr None"
  shows "fst (main w fsys) = Inr 2 \<and> fs (snd (main w fsys)) = fsys \<and>
         net_calls (snd (main w fsys)) = [GeoRequest city]"
  using main_not_found [OF assms] by simp

theorem not_found_exits_2_witness:
  "fst (main (example_world\<lparr>geo_api := (\<lambda>city. Payload \<lparr>results = Value []\<rparr>)\<rparr>) absent_log) =
     Inr 2 \<and>
   fs (snd (main (example_world\<lparr>geo_api := (\<lambda>city. Payload \<lparr>results = Value []\<rparr>)\<rparr>)
     absent_log)) = absent_log \<and>
   net_calls (snd (main (example_world\<lparr>geo_api := (\<lambda>city. Payload \<lparr>results = Value []\<rparr>)\<rparr>)
     absent_log)) = [GeoRequest ''Mumbai'']"
  using not_found_exits_2 [of "example_world\<lparr>geo_api := (\<lambda>city. Payload \<lparr>results = Value []\<rparr>)\<rparr>"
      "''Mumbai''" absent_log]
  by (simp add: read_city_def example_world_def geocode_result_def get_json_def
      geocode_parse_def)




subsection \<open>Log writer\<close>

text \<open>
  Claim C6. Writing a row that \<open>DictWriter\<close> accepts to a log that can be opened raises
  nothing and writes the header exactly when the file did not exist: a new file holds
  the header line and then the row's line, an existing file keeps its content and gets
  the row's line alone. The line of a row is the header line only if its cells are the
  column names themselves. The header line is the documented one.
\<close>

theorem header_iff_new_file:
  assumes "log_openable fsys" and "dict_to_list r = Inr cells"
  shows
    "fst (save_to_csv r fsys) = None \<and>
     (log_content fsys = None \<longrightarrow>
        log_content (snd (save_to_csv r fsys)) = Some (csv_line fieldnames @ csv_line cells)) \<and>
     (\<forall>old. log_content fsys = Some old \<longrightarrow>
        log_content (snd (save_to_csv r fsys)) = Some (old @ csv_line cells)) \<and>
     (cells \<noteq> fieldnames \<longrightarrow> csv_line cells \<noteq> csv_line fieldnames) \<and>
     csv_line fieldnames =
       ''timestamp_local,city,lat,lon,temperature_c,humidity_pct,wind_kmh,condition'' @
       [CHR 0x0D, CHR 0x0A]"
proof -
  have "cells \<noteq> fieldnames \<longrightarrow> csv_line cells \<noteq> csv_line fieldnames"
    using line_is_header [OF _ dict_to_list_length [OF assms(2)]] by blast
  then show ?thesis
    using save_to_csv_valid [OF assms] header_line_text by simp
qed

theorem header_iff_new_file_witness:
  "log_content (snd (save_to_csv (entry_row example_entry) absent_log)) =
     Some (''timestamp_local,city,lat,lon,temperature_c,humidity_pct,wind_kmh,condition'' @
           [CHR 0x0D, CHR 0x0A] @
           ''2024-01-01 10:00:00,'' @ [CHR 0x22] @ ''Mumbai, India'' @ [CHR 0x22] @
           '',19.5000,72.7500,25.3,60,,Partly cloudy'' @ [CHR 0x0D, CHR 0x0A]) \<and>
   log_content (snd (save_to_csv (entry_row example_entry)
       \<lparr>log_content = Some ''old'', log_openable = True\<rparr>)) =
     Some (''old'' @
           ''2024-01-01 10:00:00,'' @ [CHR 0x22] @ ''Mumbai, India'' @ [CHR 0x22] @
           '',19.5000,72.7500,25.3,60,,Partly cloudy'' @ [CHR 0x0D, CHR 0x0A])"
proof -
  have l: "csv_line [''2024-01-01 10:00:00'', ''Mumbai, India'', ''19.5000'', ''72.7500'', ''25.3'', ''60'', [],
          ''Partly cloudy''] = ''2024-01-01 10:00:00,'' @ [CHR 0x22] @ ''Mumbai, India'' @ [CHR 0x22] @
           '',19.5000,72.7500,25.3,60,,Partly cloudy'' @ [CHR 0x0D, CHR 0x0A]"
    by (simp add: csv_line_def csv_field_def csv_special_def)
  show ?thesis
    using header_iff_new_file [OF _ example_row_cells, of absent_log]
      header_iff_new_file [OF _ example_row_cells, of "\<lparr>log_content = Some ''old'', log_openable = True\<rparr>"]
    by (simp add: absent_log_def l)
qed

text \<open>
  Claim C7, as the code has it. Appending no record to a destination that does not exist
  leaves it non-existent, so there is no header line; and a coordinate that is not a
  finite number is written as \<open>nan\<close>, \<open>inf\<close> or \<open>-inf\<close>. The theorem below shows both:
  no record, no file; and a run whose geocoder answers with a NaN latitude ends with
  exit code 0 and logs \<open>nan\<close> in the \<open>lat\<close> column.
\<close>

theorem append_n_records_counterexample:
  "log_content (append_records [] absent_log) = None \<and>
   fst (main nan_world absent_log) = Inr 0 \<and>
   log_content (fs (snd (main nan_world absent_log))) =
     Some (''timestamp_local,city,lat,lon,temperature_c,humidity_pct,wind_kmh,condition'' @
           [CHR 0x0D, CHR 0x0A] @
           ''2024-01-01 10:00:00,'' @ [CHR 0x22] @ ''Mumbai, India'' @ [CHR 0x22] @
           '',nan,72.7500,25.3,60,12.1,Partly cloudy'' @ [CHR 0x0D, CHR 0x0A]) \<and>
   \<not> four_decimals ''nan''"
proof -
  have city: "read_city nan_world = Inr ''Mumbai''"
    by (simp add: read_city_def nan_world_def example_world_def)
  have ne: "''Mumbai'' \<noteq> []" by simp
  note geo = nan_geocode
  have wr: "weather_api nan_world NaN (Finite False 291 (- 2)) =
      Payload \<lparr>current = Value example_current\<rparr>"
    by (simp add: nan_world_def example_world_def)
  have cur: "get_current \<lparr>current = Value example_current\<rparr> = Some example_current"
    by (simp add: get_current_def)
  have op: "log_openable absent_log" by (simp add: absent_log_def)
  have cond: "condition_of (weather_code example_current) = Inr ''Partly cloudy''"
    by (simp add: condition_of_json example_current_def example_code mapping_table_def)
  have line: "csv_line [''2024-01-01 10:00:00'', ''Mumbai, India'', ''nan'', ''72.7500'',
        ''25.3'', ''60'', ''12.1'', ''Partly cloudy''] =
      ''2024-01-01 10:00:00,'' @ [CHR 0x22] @ ''Mumbai, India'' @ [CHR 0x22] @
           '',nan,72.7500,25.3,60,12.1,Partly cloudy'' @ [CHR 0x0D, CHR 0x0A]"
    by (simp add: csv_line_def csv_field_def csv_special_def)
  have now: "now_local nan_world = ''2024-01-01 10:00:00''"
    by (simp add: nan_world_def example_world_def)
  have cells: "cell_text (temperature_2m example_current) = ''25.3''"
    "cell_text (relative_humidity_2m example_current) = ''60''"
    "cell_text (wind_speed_10m example_current) = ''12.1''"
    by (simp_all add: cell_text_def example_current_def)
  have nan: "fmt_4f NaN = ''nan''" by (simp add: fmt_4f_def)
  have 1: "log_content (append_records [] absent_log) = None" by (simp add: absent_log_def)
  have 2: "fst (main nan_world absent_log) = Inr 0"
    by (rule main_success(1) [OF city ne geo wr cur op cond])
  have 3: "log_content (fs (snd (main nan_world absent_log))) =
     Some (''timestamp_local,city,lat,lon,temperature_c,humidity_pct,wind_kmh,condition'' @
           [CHR 0x0D, CHR 0x0A] @
           ''2024-01-01 10:00:00,'' @ [CHR 0x22] @ ''Mumbai, India'' @ [CHR 0x22] @
           '',nan,72.7500,25.3,60,12.1,Partly cloudy'' @ [CHR 0x0D, CHR 0x0A])"
    unfolding main_success(2) [OF city ne geo wr cur op cond] now cells nan example_fmt line
    by (simp add: absent_log_def header_line_text)
  from 1 2 3 four_decimals_examples(3) show ?thesis by simp
qed

text \<open>
  Claim C7, amended. For every N of at least 1, appending N records built by the
  orchestrator to a destination that does not exist gives a file that is the header line
  followed by the N lines of the records, in order. Each line is the rendering of eight
  cells separated by commas and ended by CR LF, the cells being the row's values under
  the column names \<open>timestamp_local\<close>, \<open>city\<close>, \<open>lat\<close>, \<open>lon\<close>, \<open>temperature_c\<close>,
  \<open>humidity_pct\<close>, \<open>wind_kmh\<close>, \<open>condition\<close> in this order; no record's line is the
  header line; and the \<open>lat\<close> and \<open>lon\<close> cells of a record whose coordinate is a finite
  number have a decimal point followed by exactly four digits.
\<close>

theorem append_n_records:
  assumes "es \<noteq> []" and "log_content fsys = None" and "log_openable fsys"
  shows
    "log_content (append_records (map entry_row es) fsys) =
       Some (csv_line fieldnames @ concat (map (\<lambda>e. csv_line (entry_cells e)) es)) \<and>
     (\<forall>e \<in> set es.
        length (entry_cells e) = 8 \<and>
        map (map_of (entry_row e)) fieldnames =
          [Some (Some (e_now e)), Some (Some (e_city e)), Some (Some (entry_cells e ! 2)),
           Some (Some (entry_cells e ! 3)), Some (e_temp e), Some (e_hum e), Some (e_wind e),
           Some (Some (e_condition e))] \<and>
        csv_line (entry_cells e) =
          join '','' (map csv_field (entry_cells e)) @ [CHR 0x0D, CHR 0x0A] \<and>
        csv_line (entry_cells e) \<noteq> csv_line fieldnames \<and>
        (is_finite (e_lat e) \<longrightarrow> four_decimals (entry_cells e ! 2)) \<and>
        (is_finite (e_lon e) \<longrightarrow> four_decimals (entry_cells e ! 3)))"
proof -
  obtain e rest where es: "es = e # rest" using assms(1) by (cases es) auto
  let ?first = "fsys\<lparr>log_content := Some (csv_line fieldnames @ csv_line (entry_cells e))\<rparr>"
  have "snd (save_to_csv (entry_row e) fsys) = ?first"
    using save_to_csv_valid [OF assms(3) entry_row_cells, of e] assms(2) by simp
  moreover have "append_records (map entry_row rest) ?first =
      ?first\<lparr>log_content := Some ((csv_line fieldnames @ csv_line (entry_cells e)) @
         concat (map (\<lambda>e. csv_line (entry_cells e)) rest))\<rparr>"
    using assms(3) by (intro append_records_existing) simp_all
  ultimately have content: "log_content (append_records (map entry_row es) fsys) =
       Some (csv_line fieldnames @ concat (map (\<lambda>e. csv_line (entry_cells e)) es))"
    by (simp add: es)
  have each: "length (entry_cells e) = 8 \<and>
        map (map_of (entry_row e)) fieldnames =
          [Some (Some (e_now e)), Some (Some (e_city e)), Some (Some (entry_cells e ! 2)),
           Some (Some (entry_cells e ! 3)), Some (e_temp e), Some (e_hum e), Some (e_wind e),
           Some (Some (e_condition e))] \<and>
        csv_line (entry_cells e) =
          join '','' (map csv_field (entry_cells e)) @ [CHR 0x0D, CHR 0x0A] \<and>
        csv_line (entry_cells e) \<noteq> csv_line fieldnames \<and>
        (is_finite (e_lat e) \<longrightarrow> four_decimals (entry_cells e ! 2)) \<and>
        (is_finite (e_lon e) \<longrightarrow> four_decimals (entry_cells e ! 3))" for e
  proof -
    have "length (entry_cells e) = 8" by (simp add: entry_cells_def)
    moreover have "map (map_of (entry_row e)) fieldnames =
          [Some (Some (e_now e)), Some (Some (e_city e)), Some (Some (entry_cells e ! 2)),
           Some (Some (entry_cells e ! 3)), Some (e_temp e), Some (e_hum e), Some (e_wind e),
           Some (Some (e_condition e))]"
      by (simp add: entry_row_def log_row_def fieldnames_def entry_cells_def)
    moreover have "csv_line (entry_cells e) =
          join '','' (map csv_field (entry_cells e)) @ [CHR 0x0D, CHR 0x0A]"
      by (simp add: csv_line_def entry_cells_def)
    moreover have "is_finite (e_lat e) \<longrightarrow> four_decimals (entry_cells e ! 2)"
      by (simp add: entry_cells_def fmt_4f_finite)
    moreover have "is_finite (e_lon e) \<longrightarrow> four_decimals (entry_cells e ! 3)"
      by (simp add: entry_cells_def fmt_4f_finite)
    ultimately show ?thesis using entry_line_not_header [of e] by blast
  qed
  from content each show ?thesis by blast
qed

theorem append_n_records_witness:
  "log_content
     (append_records
        (map entry_row [example_entry\<lparr>e_now := ''2024-01-01 10:00:00''\<rparr>,
                        example_entry\<lparr>e_now := ''2024-01-02 09:30:00''\<rparr>])
        absent_log) =
     Some (''timestamp_local,city,lat,lon,temperature_c,humidity_pct,wind_kmh,condition'' @
           [CHR 0x0D, CHR 0x0A] @
           ''2024-01-01 10:00:00,'' @ [CHR 0x22] @ ''Mumbai, India'' @ [CHR 0x22] @
           '',19.5000,72.7500,25.3,60,,Partly cloudy'' @ [CHR 0x0D, CHR 0x0A] @
           ''2024-01-02 09:30:00,'' @ [CHR 0x22] @ ''Mumbai, India'' @ [CHR 0x22] @
           '',19.5000,72.7500,25.3,60,,Partly cloudy'' @ [CHR 0x0D, CHR 0x0A]) \<and>
   four_decimals ''19.5000'' \<and> four_decimals ''72.7500''"
proof -
  have t: "csv_field ''2024-01-01 10:00:00'' = ''2024-01-01 10:00:00''"
    "csv_field ''2024-01-02 09:30:00'' = ''2024-01-02 09:30:00''"
    by (simp_all add: csv_field_def csv_special_def)
  have fin: "is_finite (e_lat (example_entry\<lparr>e_now := ''2024-01-01 10:00:00''\<rparr>))"
    "is_finite (e_lon (example_entry\<lparr>e_now := ''2024-01-01 10:00:00''\<rparr>))"
    by (simp_all add: example_entry_def is_finite_def)
  show ?thesis
    using append_n_records [of "[example_entry\<lparr>e_now := ''2024-01-01 10:00:00''\<rparr>,
                        example_entry\<lparr>e_now := ''2024-01-02 09:30:00''\<rparr>]" absent_log] fin
    by (simp add: absent_log_def example_cells example_line t header_line_text)
qed

subsection \<open>Orchestrator: the city read\<close>

text \<open>
  Claim C3 at a single blank given as the only command-line argument. The blank is
  whitespace, yet the city read is the blank itself, since only the text typed at the
  prompt is stripped: the run sends the geocoding request for it and, the geocoder
  finding nothing, ends with exit code 2. (The lemmas \<open>blank_prompt_exits_1\<close> and
  \<open>empty_argument_exits_1\<close> give the inputs for which the run does end with 1 and no
  request.)
\<close>

theorem blank_argument_reaches_geocoder:
  "list_all py_isspace '' '' \<and>
   read_city blank_argument_world = Inr '' '' \<and>
   fst (main blank_argument_world absent_log) = Inr 2 \<and>
   net_calls (snd (main blank_argument_world absent_log)) = [GeoRequest '' '']"
proof -
  have city: "read_city blank_argument_world = Inr '' ''"
    by (simp add: read_city_def blank_argument_world_def example_world_def)
  have ne: "'' '' \<noteq> []" by simp
  have geo: "geocode_result blank_argument_world '' '' = Inr None"
    by (simp add: geocode_result_def get_json_def geocode_parse_def blank_argument_world_def)
  have sp: "list_all py_isspace '' ''" by (simp add: py_isspace_def)
  from sp city main_not_found(1) [OF city ne geo] main_not_found(3) [OF city ne geo]
  show ?thesis
    by simp
qed

subsection \<open>Orchestrator: the condition shown and logged\<close>

text \<open>
  Claim C8. In a run that reaches the report, the string shown on the \<open>Condition\<close> line
  and written to the \<open>condition\<close> column is \<open>Unknown\<close> when the payload has no weather
  code, and \<open>Unknown (<code>)\<close> when it has a code outside the table. With a code present
  the string is what the decoder returns for it, and that is never the plain \<open>Unknown\<close>
  of a missing code. (In \<open>condition_of\<close> the decoder occurs only in the branch of a
  present code; an integer of a payload is within the limit of the conversion, so the
  decoder raises nothing on it.)
\<close>

theorem missing_code_versus_unknown_code:
  assumes "read_city w = Inr city" and "city \<noteq> []"
    and "geocode_result w city = Inr (Some (lat, lon, nm))"
    and "weather_api w lat lon = Payload wr"
    and "get_current wr = Some cur"
    and "log_openable fsys"
  shows
    "\<exists>condition.
       (weather_code cur = None \<longrightarrow> condition = ''Unknown'') \<and>
       (\<forall>c. weather_code cur = Some c \<and>
            int_of_json c \<notin>
              {0, 1, 2, 3, 45, 48, 51, 53, 55, 61, 63, 65, 71, 73, 75, 80, 81, 82, 95, 96, 99}
            \<longrightarrow> condition = ''Unknown ('' @ decimal_int (int_of_json c) @ '')'') \<and>
       (\<forall>c. weather_code cur = Some c \<longrightarrow>
            decode_weather_code (int_of_json c) = Inr condition \<and> condition \<noteq> ''Unknown'') \<and>
       console (snd (main w fsys)) ! 5 = ''  Condition:   '' @ condition \<and>
       log_content (fs (snd (main w fsys))) =
         Some ((case log_content fsys of None \<Rightarrow> csv_line fieldnames | Some old \<Rightarrow> old) @
               csv_line [now_local w, nm, fmt_4f lat, fmt_4f lon,
                         cell_text (temperature_2m cur), cell_text (relative_humidity_2m cur),
                         cell_text (wind_speed_10m cur), condition])"
proof -
  obtain condition where cond: "condition_of (weather_code cur) = Inr condition"
    using condition_of_json by blast
  have 1: "weather_code cur = None \<longrightarrow> condition = ''Unknown''"
  proof
    assume "weather_code cur = None"
    with cond have "Inr ''Unknown'' = (Inr condition :: exception + string)"
      by (simp add: condition_of_def)
    then show "condition = ''Unknown''" by simp
  qed
  have 2: "\<forall>c. weather_code cur = Some c \<and>
            int_of_json c \<notin>
              {0, 1, 2, 3, 45, 48, 51, 53, 55, 61, 63, 65, 71, 73, 75, 80, 81, 82, 95, 96, 99}
            \<longrightarrow> condition = ''Unknown ('' @ decimal_int (int_of_json c) @ '')''"
    using cond by (auto simp: condition_of_json mapping_table_def)
  have 3: "\<forall>c. weather_code cur = Some c \<longrightarrow>
            decode_weather_code (int_of_json c) = Inr condition \<and> condition \<noteq> ''Unknown''"
    using cond decode_never_plain_unknown by (auto simp: condition_of_def)
  have 4: "console (snd (main w fsys)) ! 5 = ''  Condition:   '' @ condition"
    unfolding main_success(3) [OF assms cond] by (simp add: eval_nat_numeral)
  have 5: "log_content (fs (snd (main w fsys))) =
         Some ((case log_content fsys of None \<Rightarrow> csv_line fieldnames | Some old \<Rightarrow> old) @
               csv_line [now_local w, nm, fmt_4f lat, fmt_4f lon,
                         cell_text (temperature_2m cur), cell_text (relative_humidity_2m cur),
                         cell_text (wind_speed_10m cur), condition])"
    by (rule main_success(2) [OF assms cond])
  show ?thesis by (rule exI [of _ condition]) (intro conjI 1 2 3 4 5)
qed

theorem missing_code_versus_unknown_code_witness:
  "console (snd (main (example_world\<lparr>weather_api := (\<lambda>lat lon.
        Payload \<lparr>current = Value (example_current\<lparr>weather_code := None\<rparr>)\<rparr>)\<rparr>) absent_log)) ! 5 =
     ''  Condition:   Unknown'' \<and>
   log_content (fs (snd (main (example_world\<lparr>weather_api := (\<lambda>lat lon.
        Payload \<lparr>current = Value (example_current\<lparr>weather_code := None\<rparr>)\<rparr>)\<rparr>) absent_log))) =
     Some (csv_line fieldnames @
           csv_line [''2024-01-01 10:00:00'', ''Mumbai, India'', ''19.5000'', ''72.7500'',
                     ''25.3'', ''60'', ''12.1'', ''Unknown'']) \<and>
   console (snd (main (example_world\<lparr>weather_api := (\<lambda>lat lon.
        Payload \<lparr>current = Value (example_current\<lparr>weather_code := Some (json_int_of 100)\<rparr>)\<rparr>)\<rparr>)
      absent_log)) ! 5 =
     ''  Condition:   Unknown (100)'' \<and>
   log_content (fs (snd (main (example_world\<lparr>weather_api := (\<lambda>lat lon.
        Payload \<lparr>current = Value (example_current\<lparr>weather_code := Some (json_int_of 100)\<rparr>)\<rparr>)\<rparr>)
      absent_log))) =
     Some (csv_line fieldnames @
           csv_line [''2024-01-01 10:00:00'', ''Mumbai, India'', ''19.5000'', ''72.7500'',
                     ''25.3'', ''60'', ''12.1'', ''Unknown (100)''])"
proof -
  let ?A = "example_world\<lparr>weather_api := (\<lambda>lat lon.
        Payload \<lparr>current = Value (example_current\<lparr>weather_code := None\<rparr>)\<rparr>)\<rparr>"
  let ?B = "example_world\<lparr>weather_api := (\<lambda>lat lon.
        Payload \<lparr>current = Value (example_current\<lparr>weather_code := Some (json_int_of 100)\<rparr>)\<rparr>)\<rparr>"
  have s100: "decimal_int 100 = ''100''"
    by (simp add: decimal_int_def str_nat.simps digit_char_def)
  have cells: "cell_text (Some ''25.3'') = ''25.3''" "cell_text (Some ''60'') = ''60''"
    "cell_text (Some ''12.1'') = ''12.1''"
    by (simp_all add: cell_text_def)
  have a: "console (snd (main ?A absent_log)) ! 5 = ''  Condition:   Unknown'' \<and>
      log_content (fs (snd (main ?A absent_log))) =
        Some (csv_line fieldnames @
           csv_line [''2024-01-01 10:00:00'', ''Mumbai, India'', ''19.5000'', ''72.7500'',
                     ''25.3'', ''60'', ''12.1'', ''Unknown''])"
    using missing_code_versus_unknown_code [where w = ?A and city = "''Mumbai''"
        and lat = "Finite False 39 (- 1)" and lon = "Finite False 291 (- 2)"
        and nm = "''Mumbai, India''"
        and wr = "\<lparr>current = Value (example_current\<lparr>weather_code := None\<rparr>)\<rparr>"
        and cur = "example_current\<lparr>weather_code := None\<rparr>" and fsys = absent_log]
    by (auto simp: read_city_def example_world_def geocode_result_def get_json_def
        geocode_parse_def example_place_def get_current_def absent_log_def example_current_def
        example_fmt cells)
  have b: "console (snd (main ?B absent_log)) ! 5 = ''  Condition:   Unknown (100)'' \<and>
      log_content (fs (snd (main ?B absent_log))) =
        Some (csv_line fieldnames @
           csv_line [''2024-01-01 10:00:00'', ''Mumbai, India'', ''19.5000'', ''72.7500'',
                     ''25.3'', ''60'', ''12.1'', ''Unknown (100)''])"
    using missing_code_versus_unknown_code [where w = ?B and city = "''Mumbai''"
        and lat = "Finite False 39 (- 1)" and lon = "Finite False 291 (- 2)"
        and nm = "''Mumbai, India''"
        and wr = "\<lparr>current = Value (example_current\<lparr>weather_code := Some (json_int_of 100)\<rparr>)\<rparr>"
        and cur = "example_current\<lparr>weather_code := Some (json_int_of 100)\<rparr>"
        and fsys = absent_log]
    by (auto simp: read_city_def example_world_def geocode_result_def get_json_def
        geocode_parse_def example_place_def get_current_def absent_log_def example_current_def
        example_fmt cells s100 example_code)
  from a b show ?thesis by simp
qed

subsection \<open>Geocoder\<close>

text \<open>
  Claim C9. A payload with no \<open>results\<close> key, with \<open>null\<close> there, or with an empty array
  there: in each case the geocoder returns \<open>None\<close>, raising nothing, and the run ends with
  exit code 2.
\<close>

theorem empty_results_are_not_found:
  assumes "read_city w = Inr city" and "city \<noteq> []"
    and "geo_api w city = Payload data"
    and "results data = Absent \<or> results data = Null \<or> results data = Value []"
  shows "geocode_parse data = Inr None \<and>
         geocode_result w city = Inr None \<and>
         fst (main w fsys) = Inr 2"
proof -
  from assms(4) have p: "geocode_parse data = Inr None"
    by (auto simp: geocode_parse_def)
  with assms(3) have g: "geocode_result w city = Inr None"
    by (simp add: geocode_result_payload)
  from p g main_not_found(1) [OF assms(1,2) g] show ?thesis by simp
qed

theorem empty_results_are_not_found_witness:
  "fst (main (example_world\<lparr>geo_api := (\<lambda>city. Payload \<lparr>results = Absent\<rparr>)\<rparr>) absent_log) =
     Inr 2 \<and>
   fst (main (example_world\<lparr>geo_api := (\<lambda>city. Payload \<lparr>results = Null\<rparr>)\<rparr>) absent_log) =
     Inr 2 \<and>
   fst (main (example_world\<lparr>geo_api := (\<lambda>city. Payload \<lparr>results = Value []\<rparr>)\<rparr>) absent_log) =
     Inr 2"
  using
    empty_results_are_not_found [where
      w = "example_world\<lparr>geo_api := (\<lambda>city. Payload \<lparr>results = Absent\<rparr>)\<rparr>"
      and city = "''Mumbai''" and data = "\<lparr>results = Absent\<rparr>" and fsys = absent_log]
    empty_results_are_not_found [where
      w = "example_world\<lparr>geo_api := (\<lambda>city. Payload \<lparr>results = Null\<rparr>)\<rparr>"
      and city = "''Mumbai''" and data = "\<lparr>results = Null\<rparr>" and fsys = absent_log]
    empty_results_are_not_found [where
      w = "example_world\<lparr>geo_api := (\<lambda>city. Payload \<lparr>results = Value []\<rparr>)\<rparr>"
      and city = "''Mumbai''" and data = "\<lparr>results = Value []\<rparr>" and fsys = absent_log]
  by (simp add: read_city_def example_world_def)

text \<open>
  Claim C10. For the first result of a non-empty array: with both coordinates present
  the geocoder returns them with the display name, in which \<open>?\<close> stands for an absent
  \<open>name\<close> and for an absent \<open>country\<close>; with \<open>latitude\<close> or \<open>longitude\<close> absent it raises
  \<open>KeyError\<close>, which is neither an \<open>HTTPError\<close> nor a \<open>RequestException\<close>, and the run ends
  with exit code 5.
\<close>

theorem missing_result_fields:
  assumes "read_city w = Inr city" and "city \<noteq> []"
    and "geo_api w city = Payload data"
    and "results data = Value (r # rest)"
  shows
    "(\<forall>lat lon. latitude r = Some lat \<and> longitude r = Some lon \<longrightarrow>
        geocode_result w city =
          Inr (Some (lat, lon,
                 (case name r of None \<Rightarrow> ''?'' | Some n \<Rightarrow> n) @ '', '' @
                 (case country r of None \<Rightarrow> ''?'' | Some c \<Rightarrow> c)))) \<and>
     (latitude r = None \<or> longitude r = None \<longrightarrow>
        geocode_result w city = Inl KeyError \<and>
        fst (main w fsys) = Inr 5 \<and>
        \<not> isinstance_HTTPError KeyError \<and> \<not> isinstance_RequestException KeyError)"
proof -
  have found: "\<forall>lat lon. latitude r = Some lat \<and> longitude r = Some lon \<longrightarrow>
        geocode_result w city =
          Inr (Some (lat, lon,
                 (case name r of None \<Rightarrow> ''?'' | Some n \<Rightarrow> n) @ '', '' @
                 (case country r of None \<Rightarrow> ''?'' | Some c \<Rightarrow> c)))"
    using assms(3,4) by (simp add: geocode_result_payload geocode_parse_def)
  have raised: "geocode_result w city = Inl KeyError"
    if "latitude r = None \<or> longitude r = None"
    using that assms(3,4)
    by (auto simp: geocode_result_payload geocode_parse_def split: option.splits)
  have classes: "\<not> isinstance_HTTPError KeyError \<and> \<not> isinstance_RequestException KeyError"
    by (simp add: isinstance_HTTPError_def isinstance_RequestException_def)
  have "fst (main w fsys) = Inr 5" if "latitude r = None \<or> longitude r = None"
    using main_geo_raises(1) [OF assms(1,2) raised [OF that]] by simp
  with found raised classes show ?thesis by blast
qed

theorem missing_result_fields_witness:
  "geocode_result
     (example_world\<lparr>geo_api :=
        (\<lambda>city. Payload \<lparr>results = Value [example_place\<lparr>name := None\<rparr>]\<rparr>)\<rparr>)
     ''Mumbai'' =
     Inr (Some (Finite False 39 (- 1), Finite False 291 (- 2), ''?, India'')) \<and>
   geocode_result
     (example_world\<lparr>geo_api :=
        (\<lambda>city. Payload \<lparr>results = Value [example_place\<lparr>country := None\<rparr>]\<rparr>)\<rparr>)
     ''Mumbai'' =
     Inr (Some (Finite False 39 (- 1), Finite False 291 (- 2), ''Mumbai, ?'')) \<and>
   fst (main
     (example_world\<lparr>geo_api :=
        (\<lambda>city. Payload \<lparr>results = Value [example_place\<lparr>latitude := None\<rparr>]\<rparr>)\<rparr>)
     absent_log) = Inr 5 \<and>
   fst (main
     (example_world\<lparr>geo_api :=
        (\<lambda>city. Payload \<lparr>results = Value [example_place\<lparr>longitude := None\<rparr>]\<rparr>)\<rparr>)
     absent_log) = Inr 5"
  using
    missing_result_fields [where
      w = "example_world\<lparr>geo_api :=
        (\<lambda>city. Payload \<lparr>results = Value [example_place\<lparr>name := None\<rparr>]\<rparr>)\<rparr>"
      and city = "''Mumbai''"
      and data = "\<lparr>results = Value [example_place\<lparr>name := None\<rparr>]\<rparr>"
      and r = "example_place\<lparr>name := None\<rparr>" and rest = "[]" and fsys = absent_log]
    missing_result_fields [where
      w = "example_world\<lparr>geo_api :=
        (\<lambda>city. Payload \<lparr>results = Value [example_place\<lparr>country := None\<rparr>]\<rparr>)\<rparr>"
      and city = "''Mumbai''"
      and data = "\<lparr>results = Value [example_place\<lparr>country := None\<rparr>]\<rparr>"
      and r = "example_place\<lparr>country := None\<rparr>" and rest = "[]" and fsys = absent_log]
    missing_result_fields [where
      w = "example_world\<lparr>geo_api :=
        (\<lambda>city. Payload \<lparr>results = Value [example_place\<lparr>latitude := None\<rparr>]\<rparr>)\<rparr>"
      and city = "''Mumbai''"
      and data = "\<lparr>results = Value [example_place\<lparr>latitude := None\<rparr>]\<rparr>"
      and r = "example_place\<lparr>latitude := None\<rparr>" and rest = "[]" and fsys = absent_log]
    missing_result_fields [where
      w = "example_world\<lparr>geo_api :=
        (\<lambda>city. Payload \<lparr>results = Value [example_place\<lparr>longitude := None\<rparr>]\<rparr>)\<rparr>"
      and city = "''Mumbai''"
      and data = "\<lparr>results = Value [example_place\<lparr>longitude := None\<rparr>]\<rparr>"
      and r = "example_place\<lparr>longitude := None\<rparr>" and rest = "[]" and fsys = absent_log]
  by (simp add: read_city_def example_world_def example_place_def)

end
